theory Spec2Isabelle
  imports Complex_Main
begin

section \<open>Data model of the dashboard (frontend/app/dashboard/page.tsx)\<close>

text \<open>
  JavaScript numbers are modelled as exact rationals: every arithmetic operation of the
  source is the exact operation here, so the last-bit rounding of IEEE doubles is not
  part of the model. Where the code rounds a number to a tenth or cuts it to a whole
  millisecond, a double that sits a last bit beside the exact value can fall on the other
  side of the cut; the properties of such results are therefore stated as distances from
  the exact value, not as the choice between the two neighbours. Counts that the code only ever increments from 0 are \<open>nat\<close>; the
  fleet bucket counts are \<open>int\<close>, since they come out of \<open>Math.round\<close>.
  An optional property of a response object (one the code reads with \<open>?.\<close> or guards
  with \<open>||\<close>) is an \<open>option\<close>, \<open>None\<close> standing for \<open>undefined\<close> or \<open>null\<close>.
\<close>

type_synonym number = rat

record Weights =
  w_throughput :: number
  w_risk :: number
  w_cost :: number

text \<open>The state \<open>kpis\<close>: \<open>{ total, healthy, warning, highRisk }\<close>.\<close>

record Kpis =
  total_k :: int
  healthy :: int
  warning :: int
  highRisk :: int

text \<open>\<open>Math.round\<close>: the nearest integer, a tie going towards plus infinity.\<close>

definition Math_round :: "number \<Rightarrow> int" where
  "Math_round x = \<lfloor>x + 1 / 2\<rfloor>"

subsection \<open>Risk bucket projection: \<open>dynamicKpis\<close>\<close>

definition dynamicKpis :: "Kpis \<Rightarrow> Weights \<Rightarrow> Kpis" where
  "dynamicKpis kpis weights =
     (if total_k kpis = 0 then kpis
      else
        let tot = of_int (total_k kpis) :: number;
            throughputImpact = (w_throughput weights - 4 / 10) * (tot * (35 / 100));
            riskImpact = (w_risk weights - 3 / 10) * (tot * (45 / 100));
            costImpact = (w_cost weights - 3 / 10) * (tot * (30 / 100));
            newHealthy0 = of_int (healthy kpis) + riskImpact - throughputImpact - costImpact;
            newHighRisk0 = of_int (highRisk kpis) - riskImpact + throughputImpact
                             + (costImpact * (3 / 10));
            newHealthy = max 0 (min tot newHealthy0);
            newHighRisk = max 0 (min (tot - newHealthy) newHighRisk0);
            newWarning = tot - newHealthy - newHighRisk
        in \<lparr> total_k = total_k kpis,
             healthy = Math_round newHealthy,
             warning = Math_round newWarning,
             highRisk = Math_round newHighRisk \<rparr>)"

text \<open>The initial value of the state \<open>weights\<close>.\<close>

definition initial_weights :: Weights where
  "initial_weights = \<lparr> w_throughput = 65 / 100, w_risk = 75 / 100, w_cost = 45 / 100 \<rparr>"

subsection \<open>Backend responses\<close>

text \<open>
  A row of \<open>/high-risk-machines\<close>. Only \<open>risk_level\<close> is inspected by the analytics; it is
  an arbitrary string, compared with \<open>===\<close> against three literals.
\<close>

record MachineRiskRecord =
  Machine_ID :: string
  health_score :: number
  risk_level :: string

text \<open>
  A job of a machine's schedule, with the properties the code reads: \<open>job.Job_ID\<close>,
  \<open>job.start\<close>, \<open>job.end\<close>, \<open>job.deadline_hours\<close> and \<open>job.revenue\<close> (the last one guarded
  by \<open>|| 0\<close>). \<open>end\<close> is a keyword, hence the prefix on both times.
\<close>

record ScheduleJob =
  Job_ID :: "string option"
  job_start :: number
  job_end :: number
  deadline_hours :: number
  revenue :: "number option"

record MachineSchedule =
  schedule :: "ScheduleJob list"

text \<open>
  The schedule object. \<open>machine_schedules\<close> is a JavaScript object used as a mapping; the
  code only enumerates it (\<open>Object.values\<close>, \<open>Object.entries\<close>), so it is the list of its
  entries in enumeration order. Both properties may be absent.
\<close>

record Schedule =
  machine_schedules :: "(string \<times> MachineSchedule) list option"
  unassigned_jobs :: "string list option"

subsection \<open>Derived views and application state\<close>

record ScheduleKpis =
  totalScheduled :: nat
  unassigned :: nat
  onTime :: nat
  late :: nat
  totalRevenue :: number
  avgUtilization :: number

record ScenarioResult =
  scenario :: string
  scheduled :: nat
  sc_unassigned :: nat

text \<open>Rows of \<open>/jobs\<close> and \<open>/simulate-maintenance\<close> are stored and never inspected.\<close>

type_synonym json = string

text \<open>The \<open>useState\<close> cells of the component that the analytics read or write.\<close>

record AppState =
  loading :: bool
  scheduleData :: "Schedule option"
  riskData :: "MachineRiskRecord list"
  jobsData :: "json list"
  maintenanceData :: "json list"
  scenarioData :: "ScenarioResult list"
  weights :: Weights
  scheduleKpis :: ScheduleKpis
  kpis :: Kpis

definition initial_state :: AppState where
  "initial_state =
     \<lparr> loading = False, scheduleData = None, riskData = [], jobsData = [],
       maintenanceData = [], scenarioData = [], weights = initial_weights,
       scheduleKpis = \<lparr> totalScheduled = 0, unassigned = 0, onTime = 0, late = 0,
                        totalRevenue = 0, avgUtilization = 0 \<rparr>,
       kpis = \<lparr> total_k = 0, healthy = 0, warning = 0, highRisk = 0 \<rparr> \<rparr>"

subsection \<open>Schedule aggregation: \<open>computeScheduleKpis\<close>\<close>

text \<open>The six local variables that the two nested \<open>forEach\<close> loops update.\<close>

record Counters =
  c_totalScheduled :: nat
  c_onTime :: nat
  c_late :: nat
  c_totalRevenue :: number
  c_totalBusyHours :: number
  c_machineCount :: nat

definition counters0 :: Counters where
  "counters0 = \<lparr> c_totalScheduled = 0, c_onTime = 0, c_late = 0, c_totalRevenue = 0,
                  c_totalBusyHours = 0, c_machineCount = 0 \<rparr>"

text \<open>The body of the inner loop, for one job.\<close>

definition job_step :: "Counters \<Rightarrow> ScheduleJob \<Rightarrow> Counters" where
  "job_step c job =
     c \<lparr> c_totalScheduled := c_totalScheduled c + 1,
         c_totalBusyHours := c_totalBusyHours c + (job_end job - job_start job),
         c_onTime := (if job_end job \<le> deadline_hours job then c_onTime c + 1 else c_onTime c),
         c_late := (if job_end job \<le> deadline_hours job then c_late c else c_late c + 1),
         c_totalRevenue := c_totalRevenue c + (case revenue job of None \<Rightarrow> 0 | Some r \<Rightarrow> r) \<rparr>"

text \<open>The body of the outer loop, for one machine.\<close>

definition machine_step :: "Counters \<Rightarrow> MachineSchedule \<Rightarrow> Counters" where
  "machine_step c machine =
     foldl job_step (c \<lparr> c_machineCount := c_machineCount c + 1 \<rparr>) (schedule machine)"

text \<open>
  \<open>Number(x.toFixed(1))\<close>: the sign is split off, and of the integers \<open>n\<close> with \<open>n / 10\<close>
  nearest to the magnitude the larger one is taken.
\<close>

definition toFixed1 :: "number \<Rightarrow> number" where
  "toFixed1 x =
     (if x < 0 then - (of_int \<lfloor>(- x) * 10 + 1 / 2\<rfloor> / 10)
      else of_int \<lfloor>x * 10 + 1 / 2\<rfloor> / 10)"

text \<open>
  The function returns early, without calling \<open>setScheduleKpis\<close>, when the response or its
  \<open>machine_schedules\<close> is missing; otherwise it replaces the state \<open>scheduleKpis\<close>.
\<close>

definition computeScheduleKpis :: "Schedule option \<Rightarrow> AppState \<Rightarrow> AppState" where
  "computeScheduleKpis sched st =
     (case sched of
        None \<Rightarrow> st
      | Some s \<Rightarrow>
          (case machine_schedules s of
             None \<Rightarrow> st
           | Some ms \<Rightarrow>
               let c = foldl machine_step counters0 (map snd ms);
                   avg = (if c_machineCount c > 0
                          then c_totalBusyHours c / of_nat (c_machineCount c) else 0)
               in st \<lparr> scheduleKpis :=
                    \<lparr> totalScheduled = c_totalScheduled c,
                      unassigned = (case unassigned_jobs s of None \<Rightarrow> 0 | Some js \<Rightarrow> length js),
                      onTime = c_onTime c,
                      late = c_late c,
                      totalRevenue = c_totalRevenue c,
                      avgUtilization = toFixed1 avg \<rparr> \<rparr>))"

subsection \<open>Timeline: \<open>buildGanttTasks\<close>\<close>


definition ToInteger :: "number \<Rightarrow> int" where
  "ToInteger v = (if v < 0 then - \<lfloor>- v\<rfloor> else \<lfloor>v\<rfloor>)"







subsection \<open>Deferred jobs: \<open>deferredJobsList\<close>\<close>

record DeferredJob =
  job_id :: string
  reason :: string

definition reasons :: "string list" where
  "reasons =
     [''Capacity Constraint: Required machine type fully utilized within deadline.'',
      ''Maintenance Conflict: Required machine locked for mandatory single-cycle maintenance.'',
      ''Cost Constraint: Processing cost exceeds allowable threshold for optimization weights.'']"

definition deferredJobsList :: "Schedule option \<Rightarrow> DeferredJob list" where
  "deferredJobsList sched =
     (case sched of
        None \<Rightarrow> []
      | Some s \<Rightarrow>
          (case unassigned_jobs s of
             None \<Rightarrow> []
           | Some js \<Rightarrow>
               map (\<lambda>(idx, jobId). \<lparr> job_id = jobId, reason = reasons ! (idx mod length reasons) \<rparr>)
                 (enumerate 0 js)))"

subsection \<open>Scenario comparison: \<open>runWhatIfAnalysis\<close>\<close>

text \<open>
  A promise of the backend client is rejected (\<open>NetworkFailure\<close>) or resolves to a body;
  reading a property of a missing body, or enumerating a missing \<open>machine_schedules\<close>
  with \<open>Object.values\<close>, throws a \<open>TypeError\<close>.
\<close>

datatype error = NetworkFailure | TypeError

text \<open>
  The optimizer is an external, possibly stateful collaborator: its answer may depend on
  how many optimizer calls came before in the same run, which is the first argument.
\<close>

type_synonym optimizer = "nat \<Rightarrow> Weights \<Rightarrow> error + Schedule option"

record Scenario =
  s_name :: string
  s_weights :: Weights

text \<open>The three presets; the first carries the current state \<open>weights\<close>.\<close>

definition scenarios :: "Weights \<Rightarrow> Scenario list" where
  "scenarios w =
     [\<lparr> s_name = ''Balanced'', s_weights = w \<rparr>,
      \<lparr> s_name = ''Throughput Focus'',
        s_weights = \<lparr> w_throughput = 7 / 10, w_risk = 2 / 10, w_cost = 1 / 10 \<rparr> \<rparr>,
      \<lparr> s_name = ''Risk Focus'',
        s_weights = \<lparr> w_throughput = 2 / 10, w_risk = 6 / 10, w_cost = 2 / 10 \<rparr> \<rparr>]"

text \<open>
  One iteration of the \<open>for\<close> loop: the row it pushes, or the exception it throws.
\<close>

definition scenario_row :: "Scenario \<Rightarrow> error + Schedule option \<Rightarrow> error + ScenarioResult" where
  "scenario_row s res =
     (case res of
        Inl e \<Rightarrow> Inl e
      | Inr None \<Rightarrow> Inl TypeError
      | Inr (Some sched) \<Rightarrow>
          (case machine_schedules sched of
             None \<Rightarrow> Inl TypeError
           | Some ms \<Rightarrow>
               Inr \<lparr> scenario = s_name s,
                     scheduled = foldl (\<lambda>t m. t + length (schedule m)) 0 (map snd ms),
                     sc_unassigned =
                       (case unassigned_jobs sched of None \<Rightarrow> 0 | Some js \<Rightarrow> length js) \<rparr>))"

text \<open>
  The loop over the presets, from call number \<open>k\<close> of the optimizer on. It returns the
  exception that left the loop, if any, together with the local array \<open>results\<close> as it was
  at that moment.
\<close>

fun scenario_loop ::
  "optimizer \<Rightarrow> nat \<Rightarrow> Scenario list \<Rightarrow> ScenarioResult list \<Rightarrow> error option \<times> ScenarioResult list"
where
  "scenario_loop opt k [] results = (None, results)"
| "scenario_loop opt k (s # ss) results =
     (case scenario_row s (opt k (s_weights s)) of
        Inl e \<Rightarrow> (Some e, results)
      | Inr row \<Rightarrow> scenario_loop opt (Suc k) ss (results @ [row]))"

text \<open>
  The \<open>try\<close> block over a list of presets: \<open>setScenarioData(results)\<close> is its last
  statement, and the \<open>catch\<close> only logs.
\<close>

definition runScenarios :: "optimizer \<Rightarrow> nat \<Rightarrow> Scenario list \<Rightarrow> AppState \<Rightarrow> AppState" where
  "runScenarios opt k presets st =
     (case scenario_loop opt k presets [] of
        (None, results) \<Rightarrow> st \<lparr> scenarioData := results \<rparr>
      | (Some e, results) \<Rightarrow> st)"

definition runWhatIfAnalysis :: "optimizer \<Rightarrow> nat \<Rightarrow> AppState \<Rightarrow> AppState" where
  "runWhatIfAnalysis opt k st = runScenarios opt k (scenarios (weights st)) st"

subsection \<open>Pipeline: \<open>runPipeline\<close> and \<open>recomputeSchedule\<close>\<close>

text \<open>The answers of the backend during one run.\<close>

record Backend =
  generateData :: "error + unit"
  trainModel :: "error + unit"
  getHighRisk :: "error + MachineRiskRecord list"
  optimizeSchedule :: optimizer
  getJobs :: "error + json list"
  simulateMaintenance :: "error + json list"

text \<open>The object passed to \<open>setKpis\<close>: the record count and three filtered counts.\<close>

definition snapshotKpis :: "MachineRiskRecord list \<Rightarrow> Kpis" where
  "snapshotKpis data =
     \<lparr> total_k = int (length data),
       healthy = int (length (filter (\<lambda>m. risk_level m = ''Healthy'') data)),
       warning = int (length (filter (\<lambda>m. risk_level m = ''Warning'') data)),
       highRisk = int (length (filter (\<lambda>m. risk_level m = ''High Risk'') data)) \<rparr>"

text \<open>
  The stages run in sequence; the first rejected call leaves the \<open>try\<close> block with the
  state as the earlier stages set it, and \<open>loading\<close> is cleared either way.
\<close>

definition runPipeline :: "Backend \<Rightarrow> AppState \<Rightarrow> AppState" where
  "runPipeline b st =
     (let st0 = st \<lparr> loading := True \<rparr>;
          st' =
            (case generateData b of Inl e \<Rightarrow> st0 | Inr u \<Rightarrow>
             (case trainModel b of Inl e \<Rightarrow> st0 | Inr u' \<Rightarrow>
              (case getHighRisk b of Inl e \<Rightarrow> st0 | Inr data \<Rightarrow>
               let st1 = st0 \<lparr> riskData := data, kpis := snapshotKpis data \<rparr> in
               (case optimizeSchedule b 0 (weights st) of Inl e \<Rightarrow> st1 | Inr sched \<Rightarrow>
                let st2 = computeScheduleKpis sched (st1 \<lparr> scheduleData := sched \<rparr>);
                    st3 = runWhatIfAnalysis (optimizeSchedule b) 1 st2 in
                (case getJobs b of Inl e \<Rightarrow> st3 | Inr jobs \<Rightarrow>
                 let st4 = st3 \<lparr> jobsData := jobs \<rparr> in
                 (case simulateMaintenance b of Inl e \<Rightarrow> st4 | Inr maint \<Rightarrow>
                  st4 \<lparr> maintenanceData := maint \<rparr>))))))
      in st' \<lparr> loading := False \<rparr>)"

definition recomputeSchedule :: "Backend \<Rightarrow> Weights \<Rightarrow> AppState \<Rightarrow> AppState" where
  "recomputeSchedule b newWeights st =
     (let st0 = st \<lparr> weights := newWeights \<rparr> in
      case optimizeSchedule b 0 newWeights of
        Inl e \<Rightarrow> st0
      | Inr sched \<Rightarrow> computeScheduleKpis sched (st0 \<lparr> scheduleData := sched \<rparr>))"

section \<open>Reference notions and example inputs\<close>

text \<open>
  The notions the properties below are stated with. They are not taken from the code:
  they say what a schedule contains, for the loops of the code to be compared with.
\<close>

text \<open>The hours one job keeps its machine busy.\<close>

definition busy_hours :: "ScheduleJob \<Rightarrow> number" where
  "busy_hours job = job_end job - job_start job"

text \<open>All jobs of a schedule: machine after machine, each machine's jobs in their order.\<close>

definition all_jobs :: "(string \<times> MachineSchedule) list \<Rightarrow> ScheduleJob list" where
  "all_jobs ms = concat (map (\<lambda>entry. schedule (snd entry)) ms)"


text \<open>
  The schedule of the end-to-end example: machine M1 with two jobs, one unassigned job.
  The example names its jobs with a property \<open>job_id\<close>, which the code never reads; the
  property \<open>Job_ID\<close> that it does read is absent.
\<close>

definition example_machines :: "(string \<times> MachineSchedule) list" where
  "example_machines =
     [(''M1'', \<lparr> schedule =
        [\<lparr> Job_ID = None, job_start = 0, job_end = 4, deadline_hours = 5, revenue = Some 100 \<rparr>,
         \<lparr> Job_ID = None, job_start = 4, job_end = 10, deadline_hours = 8, revenue = Some 50 \<rparr>] \<rparr>)]"

definition example_schedule :: Schedule where
  "example_schedule =
     \<lparr> machine_schedules = Some example_machines, unassigned_jobs = Some [''J3''] \<rparr>"

definition zero_kpis :: ScheduleKpis where
  "zero_kpis = \<lparr> totalScheduled = 0, unassigned = 0, onTime = 0, late = 0,
                  totalRevenue = 0, avgUtilization = 0 \<rparr>"




text \<open>
  The outcome of iteration \<open>i\<close> of the scenario loop, if the loop gets that far: the row
  for preset \<open>i\<close>, or the exception of the optimizer call or of reading its answer.
\<close>

definition call_result :: "optimizer \<Rightarrow> nat \<Rightarrow> Scenario list \<Rightarrow> nat \<Rightarrow> error + ScenarioResult" where
  "call_result opt k presets i =
     scenario_row (presets ! i) (opt (k + i) (s_weights (presets ! i)))"

text \<open>
  Three optimizers for the examples: one whose first call succeeds and whose later calls
  are rejected, one whose second call alone is rejected, one that always succeeds.
\<close>

definition opt_fail_second :: optimizer where
  "opt_fail_second k w = (if k = 0 then Inr (Some example_schedule) else Inl NetworkFailure)"

definition opt_fail_only_second :: optimizer where
  "opt_fail_only_second k w = (if k = 1 then Inl NetworkFailure else Inr (Some example_schedule))"

definition opt_example :: optimizer where
  "opt_example k w = Inr (Some example_schedule)"

text \<open>Two risk snapshots; the second has a record with an unforeseen \<open>risk_level\<close>.\<close>

definition good_snapshot :: "MachineRiskRecord list" where
  "good_snapshot =
     [\<lparr> Machine_ID = ''M1'', health_score = 90, risk_level = ''Healthy'' \<rparr>,
      \<lparr> Machine_ID = ''M2'', health_score = 55, risk_level = ''Warning'' \<rparr>,
      \<lparr> Machine_ID = ''M3'', health_score = 20, risk_level = ''High Risk'' \<rparr>]"

definition odd_snapshot :: "MachineRiskRecord list" where
  "odd_snapshot =
     [\<lparr> Machine_ID = ''M1'', health_score = 90, risk_level = ''Healthy'' \<rparr>,
      \<lparr> Machine_ID = ''M2'', health_score = 55, risk_level = ''Critical'' \<rparr>]"

section \<open>Risk bucket projection\<close>

text \<open>
  C2. When the baseline has \<open>total = 0\<close>, the projection returns the baseline itself,
  whatever the weights: no impact term is applied.
\<close>

theorem dynamicKpis_total_zero:
  "total_k k = 0 \<Longrightarrow> dynamicKpis k w = k"
  by (simp add: dynamicKpis_def)

theorem dynamicKpis_total_zero_witness:
  "total_k \<lparr> total_k = 0, healthy = 0, warning = 0, highRisk = 0 \<rparr> = 0 \<and>
   dynamicKpis \<lparr> total_k = 0, healthy = 0, warning = 0, highRisk = 0 \<rparr> initial_weights
     = \<lparr> total_k = 0, healthy = 0, warning = 0, highRisk = 0 \<rparr>"
  using dynamicKpis_total_zero
    [of "\<lparr> total_k = 0, healthy = 0, warning = 0, highRisk = 0 \<rparr>" initial_weights]
  by simp

text \<open>
  What does hold of the projection when \<open>total\<close> is positive: \<open>total\<close> is passed on, each
  rounded bucket lies between 0 and \<open>total\<close>, and the three add up to \<open>total\<close> give or
  take 1.
\<close>

lemma Math_round_range:
  "0 \<le> x \<Longrightarrow> x \<le> of_int t \<Longrightarrow> 0 \<le> Math_round x \<and> Math_round x \<le> t"
  unfolding Math_round_def by (simp add: floor_le_iff le_floor_iff) 

lemma Math_round_near:
  "of_int (Math_round x) \<le> x + 1 / 2 \<and> x - 1 / 2 < of_int (Math_round x)"
  unfolding Math_round_def by linarith

lemma dynamicKpis_range:
  assumes "0 < total_k k"
  shows "total_k (dynamicKpis k w) = total_k k \<and>
         0 \<le> healthy (dynamicKpis k w) \<and> healthy (dynamicKpis k w) \<le> total_k k \<and>
         0 \<le> warning (dynamicKpis k w) \<and> warning (dynamicKpis k w) \<le> total_k k \<and>
         0 \<le> highRisk (dynamicKpis k w) \<and> highRisk (dynamicKpis k w) \<le> total_k k \<and>
         \<bar>healthy (dynamicKpis k w) + warning (dynamicKpis k w) + highRisk (dynamicKpis k w)
            - total_k k\<bar> \<le> 1"
proof -
  define tot :: number where "tot = of_int (total_k k)"
  define throughputImpact where "throughputImpact = (w_throughput w - 4 / 10) * (tot * (35 / 100))"
  define riskImpact where "riskImpact = (w_risk w - 3 / 10) * (tot * (45 / 100))"
  define costImpact where "costImpact = (w_cost w - 3 / 10) * (tot * (30 / 100))"
  define newHealthy where
    "newHealthy = max 0 (min tot (of_int (healthy k) + riskImpact - throughputImpact - costImpact))"
  define newHighRisk where
    "newHighRisk = max 0 (min (tot - newHealthy)
       (of_int (highRisk k) - riskImpact + throughputImpact + (costImpact * (3 / 10))))"
  define newWarning where "newWarning = tot - newHealthy - newHighRisk"
  have result: "dynamicKpis k w =
      \<lparr> total_k = total_k k, healthy = Math_round newHealthy,
        warning = Math_round newWarning, highRisk = Math_round newHighRisk \<rparr>"
    using assms
    by (simp add: dynamicKpis_def Let_def tot_def throughputImpact_def riskImpact_def
        costImpact_def newHealthy_def newHighRisk_def newWarning_def)
  have tot: "0 < tot" using assms by (simp add: tot_def)
  have h: "0 \<le> newHealthy" "newHealthy \<le> tot"
    using tot by (simp_all add: newHealthy_def)
  have r: "0 \<le> newHighRisk" "newHighRisk \<le> tot - newHealthy"
    using h by (simp_all add: newHighRisk_def)
  have wn: "0 \<le> newWarning" "newWarning \<le> tot"
    using h r by (simp_all add: newWarning_def)
  have r': "newHighRisk \<le> tot" using r h by linarith
  note rh = Math_round_range [OF h(1) h(2) [unfolded tot_def]]
  note rr = Math_round_range [OF r(1) r' [unfolded tot_def]]
  note rw = Math_round_range [OF wn(1) wn(2) [unfolded tot_def]]
  have "of_int (Math_round newHealthy + Math_round newWarning + Math_round newHighRisk) - tot
          \<le> 3 / 2"
       "- (3 / 2) < of_int (Math_round newHealthy + Math_round newWarning + Math_round newHighRisk) - tot"
    using Math_round_near [of newHealthy] Math_round_near [of newWarning]
      Math_round_near [of newHighRisk]
    by (simp_all add: newWarning_def)
  then have "of_int (Math_round newHealthy + Math_round newWarning + Math_round newHighRisk
               - total_k k) \<le> (3 / 2 :: number)"
       "- (3 / 2 :: number) < of_int (Math_round newHealthy + Math_round newWarning + Math_round newHighRisk
               - total_k k)"
    by (simp_all add: tot_def)
  then have "Math_round newHealthy + Math_round newWarning + Math_round newHighRisk - total_k k \<le> 1"
    "- 1 \<le> Math_round newHealthy + Math_round newWarning + Math_round newHighRisk - total_k k"
    by linarith+
  then show ?thesis using rh rr rw by (simp add: result)
qed


text \<open>
  C1. The projected buckets are claimed to add up to \<open>total\<close>. With the weights the
  dashboard starts with and a fleet of 7 machines (3 healthy, 2 warning, 2 high risk)
  the unrounded buckets are 3.49 (healthy), 2.2205 (warning) and 1.2895 (high risk),
  which add up to 7; each is then rounded on its own, to 3, 2 and 1, which add up to 6.
\<close>

theorem dynamicKpis_sum_drifts:
  "dynamicKpis \<lparr> total_k = 7, healthy = 3, warning = 2, highRisk = 2 \<rparr> initial_weights
     = \<lparr> total_k = 7, healthy = 3, warning = 2, highRisk = 1 \<rparr>"
  by (simp add: dynamicKpis_def initial_weights_def Math_round_def Let_def floor_eq_iff)

section \<open>Schedule aggregation\<close>

text \<open>What the two nested loops leave in the counters, and the state they produce.\<close>

lemma foldl_job_step:
  "foldl job_step c js =
     c \<lparr> c_totalScheduled := c_totalScheduled c + length js,
         c_totalBusyHours := c_totalBusyHours c + sum_list (map busy_hours js),
         c_onTime := c_onTime c + length (filter (\<lambda>j. job_end j \<le> deadline_hours j) js),
         c_late := c_late c + length (filter (\<lambda>j. \<not> job_end j \<le> deadline_hours j) js),
         c_totalRevenue := c_totalRevenue c
            + sum_list (map (\<lambda>j. case revenue j of None \<Rightarrow> 0 | Some r \<Rightarrow> r) js) \<rparr>"
  by (induction js arbitrary: c) (simp_all add: job_step_def busy_hours_def)

lemma foldl_machine_step:
  "foldl machine_step c (map snd ms) =
     c \<lparr> c_machineCount := c_machineCount c + length ms,
         c_totalScheduled := c_totalScheduled c + length (all_jobs ms),
         c_totalBusyHours := c_totalBusyHours c + sum_list (map busy_hours (all_jobs ms)),
         c_onTime := c_onTime c + length (filter (\<lambda>j. job_end j \<le> deadline_hours j) (all_jobs ms)),
         c_late := c_late c + length (filter (\<lambda>j. \<not> job_end j \<le> deadline_hours j) (all_jobs ms)),
         c_totalRevenue := c_totalRevenue c
            + sum_list (map (\<lambda>j. case revenue j of None \<Rightarrow> 0 | Some r \<Rightarrow> r) (all_jobs ms)) \<rparr>"
  by (induction ms arbitrary: c) (simp_all add: machine_step_def foldl_job_step all_jobs_def)

lemma length_all_jobs:
  "length (all_jobs ms) = sum_list (map (\<lambda>entry. length (schedule (snd entry))) ms)"
  by (simp add: all_jobs_def length_concat comp_def)

lemma scheduleKpis_computed:
  assumes "machine_schedules s = Some ms"
  shows "scheduleKpis (computeScheduleKpis (Some s) st) =
     \<lparr> totalScheduled = length (all_jobs ms),
       unassigned = (case unassigned_jobs s of None \<Rightarrow> 0 | Some js \<Rightarrow> length js),
       onTime = length (filter (\<lambda>j. job_end j \<le> deadline_hours j) (all_jobs ms)),
       late = length (filter (\<lambda>j. \<not> job_end j \<le> deadline_hours j) (all_jobs ms)),
       totalRevenue = sum_list (map (\<lambda>j. case revenue j of None \<Rightarrow> 0 | Some r \<Rightarrow> r) (all_jobs ms)),
       avgUtilization = toFixed1 (if ms = [] then 0
           else sum_list (map busy_hours (all_jobs ms)) / of_nat (length ms)) \<rparr>"
  using assms
  by (simp add: computeScheduleKpis_def foldl_machine_step counters0_def Let_def)



lemma filter_split_length:
  "length (filter P xs) + length (filter (\<lambda>x. \<not> P x) xs) = length xs"
  by (induction xs) simp_all


lemma toFixed1_zero: "toFixed1 0 = 0"
  by (simp add: toFixed1_def floor_eq_iff)

text \<open>
  C3. For a schedule with its \<open>machine_schedules\<close> mapping, the aggregated \<open>onTime\<close> and
  \<open>late\<close> add up to \<open>totalScheduled\<close>, which is the sum of the lengths of the machines' job
  sequences. For any response at all, also one the function ignores, the split
  \<open>onTime + late = totalScheduled\<close> is kept if it held of the state before.
\<close>

theorem computeScheduleKpis_split:
  "(machine_schedules s = Some ms \<longrightarrow>
      onTime (scheduleKpis (computeScheduleKpis (Some s) st))
        + late (scheduleKpis (computeScheduleKpis (Some s) st))
        = totalScheduled (scheduleKpis (computeScheduleKpis (Some s) st)) \<and>
      totalScheduled (scheduleKpis (computeScheduleKpis (Some s) st))
        = sum_list (map (\<lambda>entry. length (schedule (snd entry))) ms)) \<and>
   (onTime (scheduleKpis st) + late (scheduleKpis st) = totalScheduled (scheduleKpis st) \<longrightarrow>
      onTime (scheduleKpis (computeScheduleKpis sched st))
        + late (scheduleKpis (computeScheduleKpis sched st))
        = totalScheduled (scheduleKpis (computeScheduleKpis sched st)))"
proof (intro conjI impI)
  assume ms: "machine_schedules s = Some ms"
  show "onTime (scheduleKpis (computeScheduleKpis (Some s) st))
        + late (scheduleKpis (computeScheduleKpis (Some s) st))
        = totalScheduled (scheduleKpis (computeScheduleKpis (Some s) st))"
    by (simp add: scheduleKpis_computed [OF ms] filter_split_length)
  show "totalScheduled (scheduleKpis (computeScheduleKpis (Some s) st))
        = sum_list (map (\<lambda>entry. length (schedule (snd entry))) ms)"
    by (simp add: scheduleKpis_computed [OF ms] length_all_jobs)
next
  assume inv: "onTime (scheduleKpis st) + late (scheduleKpis st) = totalScheduled (scheduleKpis st)"
  show "onTime (scheduleKpis (computeScheduleKpis sched st))
        + late (scheduleKpis (computeScheduleKpis sched st))
        = totalScheduled (scheduleKpis (computeScheduleKpis sched st))"
  proof (cases sched)
    case None
    then show ?thesis using inv by (simp add: computeScheduleKpis_def)
  next
    case (Some s')
    show ?thesis
    proof (cases "machine_schedules s'")
      case None
      then show ?thesis using inv Some by (simp add: computeScheduleKpis_def)
    next
      case (Some ms')
      then show ?thesis using \<open>sched = Some s'\<close>
        by (simp add: scheduleKpis_computed filter_split_length)
    qed
  qed
qed

theorem computeScheduleKpis_split_witness:
  "machine_schedules example_schedule = Some example_machines \<and>
   onTime (scheduleKpis initial_state) + late (scheduleKpis initial_state)
     = totalScheduled (scheduleKpis initial_state) \<and>
   onTime (scheduleKpis (computeScheduleKpis (Some example_schedule) initial_state))
     + late (scheduleKpis (computeScheduleKpis (Some example_schedule) initial_state))
     = totalScheduled (scheduleKpis (computeScheduleKpis (Some example_schedule) initial_state)) \<and>
   totalScheduled (scheduleKpis (computeScheduleKpis (Some example_schedule) initial_state)) = 2"
  using computeScheduleKpis_split
    [of example_schedule example_machines initial_state "Some example_schedule"]
  by (simp add: example_schedule_def example_machines_def initial_state_def)

text \<open>
  C6. The end-to-end example: 2 scheduled, 1 unassigned, 1 on time, 1 late, revenue 150 and
  10.0 hours of average utilization.
\<close>

theorem computeScheduleKpis_example:
  "scheduleKpis (computeScheduleKpis (Some example_schedule) initial_state)
     = \<lparr> totalScheduled = 2, unassigned = 1, onTime = 1, late = 1,
         totalRevenue = 150, avgUtilization = 10 \<rparr>"
  by (simp add: computeScheduleKpis_def example_schedule_def example_machines_def
      machine_step_def job_step_def counters0_def toFixed1_def Let_def floor_eq_iff)

text \<open>
  C4, as stated, fails twice. A response without \<open>machine_schedules\<close> makes the function
  return before it sets anything, so the figures of the previous schedule stay; and a
  schedule without machines but with an unassigned job yields \<open>unassigned = 1\<close>.
\<close>

theorem computeScheduleKpis_not_all_zero:
  "scheduleKpis (computeScheduleKpis (Some \<lparr> machine_schedules = None, unassigned_jobs = None \<rparr>)
      (computeScheduleKpis (Some example_schedule) initial_state)) \<noteq> zero_kpis \<and>
   scheduleKpis (computeScheduleKpis
      (Some \<lparr> machine_schedules = Some [], unassigned_jobs = Some [''J3''] \<rparr>) initial_state)
     \<noteq> zero_kpis"
  by (simp add: computeScheduleKpis_def example_schedule_def example_machines_def
      machine_step_def job_step_def counters0_def toFixed1_def Let_def zero_kpis_def)

text \<open>
  C4, amended. A missing response or a missing \<open>machine_schedules\<close> leaves the whole state
  as it was. A schedule whose mapping is present and holds no job at all (no machine, or
  machines with empty job sequences) sets every figure to 0 except \<open>unassigned\<close>, which is
  the length of \<open>unassigned_jobs\<close> (0 when absent). No branch of the function can fail.
\<close>

theorem computeScheduleKpis_empty:
  "computeScheduleKpis None st = st \<and>
   (machine_schedules s = None \<longrightarrow> computeScheduleKpis (Some s) st = st) \<and>
   (machine_schedules s = Some ms \<and> all_jobs ms = [] \<longrightarrow>
      scheduleKpis (computeScheduleKpis (Some s) st)
        = zero_kpis \<lparr> unassigned :=
            (case unassigned_jobs s of None \<Rightarrow> 0 | Some js \<Rightarrow> length js) \<rparr>)"
proof (intro conjI impI)
  show "computeScheduleKpis None st = st"
    by (simp add: computeScheduleKpis_def)
  show "computeScheduleKpis (Some s) st = st" if "machine_schedules s = None"
    using that by (simp add: computeScheduleKpis_def)
  show "scheduleKpis (computeScheduleKpis (Some s) st)
        = zero_kpis \<lparr> unassigned :=
            (case unassigned_jobs s of None \<Rightarrow> 0 | Some js \<Rightarrow> length js) \<rparr>"
    if "machine_schedules s = Some ms \<and> all_jobs ms = []"
    using that by (simp add: scheduleKpis_computed zero_kpis_def toFixed1_zero)
qed

theorem computeScheduleKpis_empty_witness:
  "machine_schedules \<lparr> machine_schedules = None, unassigned_jobs = None \<rparr> = None \<and>
   computeScheduleKpis (Some \<lparr> machine_schedules = None, unassigned_jobs = None \<rparr>) initial_state
     = initial_state \<and>
   machine_schedules \<lparr> machine_schedules = Some [(''M1'', \<lparr> schedule = [] \<rparr>)],
        unassigned_jobs = Some [''J3''] \<rparr> = Some [(''M1'', \<lparr> schedule = [] \<rparr>)] \<and>
   all_jobs [(''M1'', \<lparr> schedule = [] \<rparr>)] = [] \<and>
   scheduleKpis (computeScheduleKpis
      (Some \<lparr> machine_schedules = Some [(''M1'', \<lparr> schedule = [] \<rparr>)],
              unassigned_jobs = Some [''J3''] \<rparr>) initial_state)
     = \<lparr> totalScheduled = 0, unassigned = 1, onTime = 0, late = 0,
         totalRevenue = 0, avgUtilization = 0 \<rparr>"
  using computeScheduleKpis_empty
    [of initial_state "\<lparr> machine_schedules = None, unassigned_jobs = None \<rparr>"]
    computeScheduleKpis_empty
    [of initial_state "\<lparr> machine_schedules = Some [(''M1'', \<lparr> schedule = [] \<rparr>)],
        unassigned_jobs = Some [''J3''] \<rparr>" "[(''M1'', \<lparr> schedule = [] \<rparr>)]"]
  by (simp add: all_jobs_def zero_kpis_def)



section \<open>Timeline\<close>






lemma ToInteger_of_int: "ToInteger (of_int k) = k"
  by (simp add: ToInteger_def)









section \<open>Deferred jobs\<close>

text \<open>
  C8. For a schedule with its \<open>unassigned_jobs\<close>, the deferred list has the length and the
  job ids of the input, in order; the catalog has 3 entries; the reason at index \<open>i\<close> is
  entry \<open>i mod 3\<close> of the catalog, hence the reason at \<open>i\<close> is the reason at \<open>i + 3\<close>.
\<close>

theorem deferredJobsList_rotation:
  assumes "unassigned_jobs s = Some js"
  shows "length (deferredJobsList (Some s)) = length js \<and>
         map job_id (deferredJobsList (Some s)) = js \<and>
         length reasons = 3 \<and>
         (\<forall>i < length js. reason (deferredJobsList (Some s) ! i) = reasons ! (i mod 3)) \<and>
         (\<forall>i. i + 3 < length js \<longrightarrow>
            reason (deferredJobsList (Some s) ! i) = reason (deferredJobsList (Some s) ! (i + 3)))"
proof -
  have def: "deferredJobsList (Some s) =
      map (\<lambda>(idx, jobId). \<lparr> job_id = jobId, reason = reasons ! (idx mod length reasons) \<rparr>)
        (enumerate 0 js)"
    using assms by (simp add: deferredJobsList_def)
  have three: "length reasons = 3" by (simp add: reasons_def)
  have ids: "map job_id (deferredJobsList (Some s)) = js"
    by (simp add: def comp_def case_prod_beta)
  have at: "reason (deferredJobsList (Some s) ! i) = reasons ! (i mod 3)" if "i < length js" for i
    using that by (simp add: def three nth_enumerate_eq)
  have "reason (deferredJobsList (Some s) ! i) = reason (deferredJobsList (Some s) ! (i + 3))"
    if "i + 3 < length js" for i
  proof -
    have "(i + 3) mod 3 = i mod 3" by simp
    then show ?thesis using that at [of i] at [of "i + 3"] by simp
  qed
  then show ?thesis using three ids at by (simp add: def)
qed

theorem deferredJobsList_rotation_witness:
  "unassigned_jobs \<lparr> machine_schedules = None,
      unassigned_jobs = Some [''J1'', ''J2'', ''J3'', ''J4''] \<rparr> = Some [''J1'', ''J2'', ''J3'', ''J4''] \<and>
   length (deferredJobsList (Some \<lparr> machine_schedules = None,
      unassigned_jobs = Some [''J1'', ''J2'', ''J3'', ''J4''] \<rparr>)) = 4 \<and>
   reason (deferredJobsList (Some \<lparr> machine_schedules = None,
      unassigned_jobs = Some [''J1'', ''J2'', ''J3'', ''J4''] \<rparr>) ! 0)
   = reason (deferredJobsList (Some \<lparr> machine_schedules = None,
      unassigned_jobs = Some [''J1'', ''J2'', ''J3'', ''J4''] \<rparr>) ! (0 + 3))"
  using deferredJobsList_rotation
    [of "\<lparr> machine_schedules = None, unassigned_jobs = Some [''J1'', ''J2'', ''J3'', ''J4''] \<rparr>"
        "[''J1'', ''J2'', ''J3'', ''J4'']"]
  by simp

section \<open>Scenario comparison\<close>

text \<open>The loop over the presets, by whether an iteration fails.\<close>

lemma call_result_Cons_0:
  "call_result opt k (s # ss) 0 = scenario_row s (opt k (s_weights s))"
  by (simp add: call_result_def)

lemma call_result_Cons_Suc:
  "call_result opt k (s # ss) (Suc i) = call_result opt (Suc k) ss i"
  by (simp add: call_result_def)

lemma scenario_loop_all_succeed:
  "(\<forall>i < length ss. \<not> isl (call_result opt k ss i)) \<Longrightarrow>
   scenario_loop opt k ss acc
     = (None, acc @ map (\<lambda>i. projr (call_result opt k ss i)) [0 ..< length ss])"
proof (induction ss arbitrary: k acc)
  case Nil
  then show ?case by simp
next
  case (Cons s ss)
  from Cons.prems have first: "\<not> isl (call_result opt k (s # ss) 0)" by auto
  have "\<not> isl (call_result opt (Suc k) ss i)" if "i < length ss" for i
    using Cons.prems [rule_format, of "Suc i"] that by (simp add: call_result_Cons_Suc)
  then have rest: "\<forall>i < length ss. \<not> isl (call_result opt (Suc k) ss i)"
    by blast
  obtain row where row: "scenario_row s (opt k (s_weights s)) = Inr row"
    using first by (cases "scenario_row s (opt k (s_weights s))") (auto simp: call_result_Cons_0)
  have "map (\<lambda>i. projr (call_result opt k (s # ss) i)) [0 ..< length (s # ss)]
        = row # map (\<lambda>i. projr (call_result opt (Suc k) ss i)) [0 ..< length ss]"
    by (simp add: upt_conv_Cons map_Suc_upt [symmetric] call_result_Cons_0 call_result_Cons_Suc
        row del: upt_Suc)
  then show ?case
    using Cons.IH [OF rest, of "acc @ [row]"] row by simp
qed

lemma scenario_loop_some_fails:
  "\<exists>i < length ss. isl (call_result opt k ss i) \<Longrightarrow>
   \<exists>e rows. scenario_loop opt k ss acc = (Some e, acc @ rows) \<and> length rows < length ss"
proof (induction ss arbitrary: k acc)
  case Nil
  then show ?case by simp
next
  case (Cons s ss)
  show ?case
  proof (cases "scenario_row s (opt k (s_weights s))")
    case (Inl e)
    then show ?thesis by simp
  next
    case (Inr row)
    from Cons.prems obtain i where i: "i < length (s # ss)" "isl (call_result opt k (s # ss) i)"
      by blast
    from i Inr obtain j where j: "i = Suc j"
      by (cases i) (auto simp: call_result_Cons_0)
    with i have "\<exists>j < length ss. isl (call_result opt (Suc k) ss j)"
      by (auto simp: call_result_Cons_Suc)
    from Cons.IH [OF this, of "acc @ [row]"]
    obtain e rows where "scenario_loop opt (Suc k) ss (acc @ [row]) = (Some e, (acc @ [row]) @ rows)"
      "length rows < length ss" by blast
    then have "scenario_loop opt k (s # ss) acc = (Some e, acc @ (row # rows)) \<and>
        length (row # rows) < length (s # ss)"
      using Inr by simp
    then show ?thesis by blast
  qed
qed

lemma scenario_names:
  "(\<forall>i < length ss. \<not> isl (call_result opt k ss i)) \<Longrightarrow>
   map (\<lambda>i. scenario (projr (call_result opt k ss i))) [0 ..< length ss] = map s_name ss"
proof (rule nth_equalityI)
  show "length (map (\<lambda>i. scenario (projr (call_result opt k ss i))) [0 ..< length ss])
        = length (map s_name ss)" by simp
next
  fix i
  assume ok: "\<forall>i < length ss. \<not> isl (call_result opt k ss i)"
    and "i < length (map (\<lambda>i. scenario (projr (call_result opt k ss i))) [0 ..< length ss])"
  then have i: "i < length ss" by simp
  with ok have "\<not> isl (call_result opt k ss i)" by blast
  then have "scenario (projr (call_result opt k ss i)) = s_name (ss ! i)"
    by (auto simp: call_result_def scenario_row_def split: sum.splits option.splits)
  then show "map (\<lambda>i. scenario (projr (call_result opt k ss i))) [0 ..< length ss] ! i
        = map s_name ss ! i"
    using i by simp
qed

lemma scenario_loop_ignores_later:
  "i < length ss \<Longrightarrow> isl (call_result opt k ss i) \<Longrightarrow>
   (\<forall>j \<le> i. \<forall>w. opt' (k + j) w = opt (k + j) w) \<Longrightarrow>
   scenario_loop opt' k ss acc = scenario_loop opt k ss acc"
proof (induction ss arbitrary: k acc i)
  case Nil
  then show ?case by simp
next
  case (Cons s ss)
  from Cons.prems(3) have same: "opt' k (s_weights s) = opt k (s_weights s)"
    by (metis add.right_neutral le0)
  show ?case
  proof (cases "scenario_row s (opt k (s_weights s))")
    case (Inl e)
    then show ?thesis by (simp add: same)
  next
    case (Inr row)
    with Cons.prems(2) obtain j where j: "i = Suc j"
      by (cases i) (auto simp: call_result_Cons_0)
    have "\<forall>l \<le> j. \<forall>w. opt' (Suc k + l) w = opt (Suc k + l) w"
    proof (intro allI impI)
      fix l w assume "l \<le> j"
      then have "Suc l \<le> i" using j by simp
      with Cons.prems(3) have "opt' (k + Suc l) w = opt (k + Suc l) w" by blast
      then show "opt' (Suc k + l) w = opt (Suc k + l) w" by simp
    qed
    moreover have "j < length ss" "isl (call_result opt (Suc k) ss j)"
      using Cons.prems(1,2) j by (simp_all add: call_result_Cons_Suc)
    ultimately have "scenario_loop opt' (Suc k) ss (acc @ [row])
        = scenario_loop opt (Suc k) ss (acc @ [row])"
      using Cons.IH by blast
    then show ?thesis using Inr by (simp add: same)
  qed
qed

lemma example_row:
  "scenario_row s (Inr (Some example_schedule))
     = Inr \<lparr> scenario = s_name s, scheduled = 2, sc_unassigned = 1 \<rparr>"
  by (simp add: scenario_row_def example_schedule_def example_machines_def)

lemma scenario_row_Inl: "scenario_row s (Inl e) = Inl e"
  by (simp add: scenario_row_def)

text \<open>
  C9, as stated, fails. The first optimizer call succeeds and the second is rejected: the
  loop is left with one row in \<open>results\<close>, and \<open>scenarioData\<close> stays the empty list it was;
  the row is dropped with the local array.
\<close>

theorem runWhatIfAnalysis_partial_discarded:
  "scenario_loop opt_fail_second 0 (scenarios initial_weights) []
     = (Some NetworkFailure, [\<lparr> scenario = ''Balanced'', scheduled = 2, sc_unassigned = 1 \<rparr>]) \<and>
   scenarioData (runWhatIfAnalysis opt_fail_second 0 initial_state) = []"
  by (simp add: runWhatIfAnalysis_def runScenarios_def scenarios_def opt_fail_second_def
      example_row initial_state_def scenario_row_Inl)

text \<open>
  C9, amended. If some iteration fails, the run leaves the whole state, \<open>scenarioData\<close>
  included, as it was before, and what the loop does is settled by the optimizer's answers
  up to the failing call: the answers after it play no part. If no iteration fails,
  \<open>scenarioData\<close> becomes the rows of all presets, one per preset and in preset order.
\<close>

theorem runScenarios_all_or_nothing:
  "((\<exists>i < length presets. isl (call_result opt k presets i)) \<longrightarrow>
      runScenarios opt k presets st = st) \<and>
   ((\<forall>i < length presets. \<not> isl (call_result opt k presets i)) \<longrightarrow>
      scenarioData (runScenarios opt k presets st)
        = map (\<lambda>i. projr (call_result opt k presets i)) [0 ..< length presets] \<and>
      length (scenarioData (runScenarios opt k presets st)) = length presets \<and>
      map scenario (scenarioData (runScenarios opt k presets st)) = map s_name presets) \<and>
   (i < length presets \<and> isl (call_result opt k presets i) \<and>
    (\<forall>j \<le> i. \<forall>w. opt' (k + j) w = opt (k + j) w) \<longrightarrow>
      scenario_loop opt' k presets [] = scenario_loop opt k presets [])"
proof (intro conjI impI)
  assume "\<exists>i < length presets. isl (call_result opt k presets i)"
  from scenario_loop_some_fails [OF this, of "[]"]
  show "runScenarios opt k presets st = st"
    by (auto simp: runScenarios_def)
next
  assume ok: "\<forall>i < length presets. \<not> isl (call_result opt k presets i)"
  from scenario_loop_all_succeed [OF this, of "[]"]
  have data: "scenarioData (runScenarios opt k presets st)
        = map (\<lambda>i. projr (call_result opt k presets i)) [0 ..< length presets]"
    by (simp add: runScenarios_def)
  then show "scenarioData (runScenarios opt k presets st)
        = map (\<lambda>i. projr (call_result opt k presets i)) [0 ..< length presets]" .
  from data show "length (scenarioData (runScenarios opt k presets st)) = length presets"
    by simp
  from data scenario_names [OF ok]
  show "map scenario (scenarioData (runScenarios opt k presets st)) = map s_name presets"
    by (simp add: comp_def)
next
  assume "i < length presets \<and> isl (call_result opt k presets i) \<and>
    (\<forall>j \<le> i. \<forall>w. opt' (k + j) w = opt (k + j) w)"
  then show "scenario_loop opt' k presets [] = scenario_loop opt k presets []"
    using scenario_loop_ignores_later [of i presets opt k opt' "[]"] by blast
qed

theorem runScenarios_all_or_nothing_witness:
  "isl (call_result opt_fail_second 0 (scenarios initial_weights) 1) \<and>
   runScenarios opt_fail_second 0 (scenarios initial_weights) initial_state = initial_state \<and>
   scenario_loop opt_fail_only_second 0 (scenarios initial_weights) []
     = scenario_loop opt_fail_second 0 (scenarios initial_weights) [] \<and>
   map scenario (scenarioData (runScenarios opt_example 0 (scenarios initial_weights) initial_state))
     = [''Balanced'', ''Throughput Focus'', ''Risk Focus''] \<and>
   length (scenarioData (runScenarios opt_example 0 (scenarios initial_weights) initial_state)) = 3"
proof -
  have second: "isl (call_result opt_fail_second 0 (scenarios initial_weights) 1)"
    by (simp add: scenarios_def call_result_def opt_fail_second_def scenario_row_Inl)
  have len: "length (scenarios initial_weights) = 3"
    by (simp add: scenarios_def)
  have fails: "\<exists>i < length (scenarios initial_weights).
      isl (call_result opt_fail_second 0 (scenarios initial_weights) i)"
    using second len by (intro exI [of _ 1]) simp
  have ok: "\<forall>i < length (scenarios initial_weights).
      \<not> isl (call_result opt_example 0 (scenarios initial_weights) i)"
    by (simp add: call_result_def opt_example_def example_row)
  have agree: "\<forall>j \<le> 1. \<forall>w. opt_fail_only_second (0 + j) w = opt_fail_second (0 + j) w"
    by (auto simp: opt_fail_only_second_def opt_fail_second_def)
  have names: "map s_name (scenarios initial_weights)
      = [''Balanced'', ''Throughput Focus'', ''Risk Focus'']"
    by (simp add: scenarios_def)
  note failing =
    runScenarios_all_or_nothing
      [of "scenarios initial_weights" opt_fail_second 0 initial_state 1 opt_fail_only_second]
  note succeeding =
    runScenarios_all_or_nothing
      [of "scenarios initial_weights" opt_example 0 initial_state 0 opt_example]
  from failing fails
  have kept: "runScenarios opt_fail_second 0 (scenarios initial_weights) initial_state
      = initial_state"
    by blast
  from failing second agree len
  have same: "scenario_loop opt_fail_only_second 0 (scenarios initial_weights) []
      = scenario_loop opt_fail_second 0 (scenarios initial_weights) []"
    by simp
  from succeeding ok
  have "length (scenarioData (runScenarios opt_example 0 (scenarios initial_weights) initial_state))
      = length (scenarios initial_weights)"
    and "map scenario (scenarioData (runScenarios opt_example 0 (scenarios initial_weights) initial_state))
      = map s_name (scenarios initial_weights)"
    by blast+
  with kept second same show ?thesis
    by (simp only: names len simp_thms)
qed

section \<open>Baseline fleet counts\<close>

lemma snapshot_counts:
  "length (filter (\<lambda>m. risk_level m = ''Healthy'') data)
   + length (filter (\<lambda>m. risk_level m = ''Warning'') data)
   + length (filter (\<lambda>m. risk_level m = ''High Risk'') data)
   + length (filter (\<lambda>m. risk_level m \<notin> {''Healthy'', ''Warning'', ''High Risk''}) data)
   = length data"
  by (induction data) auto

lemma runPipeline_kpis:
  "generateData b = Inr u \<Longrightarrow> trainModel b = Inr u' \<Longrightarrow> getHighRisk b = Inr data \<Longrightarrow>
   kpis (runPipeline b st) = snapshotKpis data"
  by (simp add: runPipeline_def runWhatIfAnalysis_def runScenarios_def computeScheduleKpis_def
      Let_def split: sum.splits option.splits prod.splits)

text \<open>
  C10. The three buckets of a snapshot add up to at most \<open>total\<close>, the record count, and
  to exactly \<open>total\<close> if and only if every record's \<open>risk_level\<close> is one of the strings
  \<open>Healthy\<close>, \<open>Warning\<close> and \<open>High Risk\<close>: a record with another level is counted in
  \<open>total\<close> alone.
\<close>

theorem snapshotKpis_buckets:
  "healthy (snapshotKpis data) + warning (snapshotKpis data) + highRisk (snapshotKpis data)
     \<le> total_k (snapshotKpis data) \<and>
   (healthy (snapshotKpis data) + warning (snapshotKpis data) + highRisk (snapshotKpis data)
      = total_k (snapshotKpis data)
    \<longleftrightarrow> (\<forall>m \<in> set data. risk_level m \<in> {''Healthy'', ''Warning'', ''High Risk''}))"
proof -
  have "length (filter (\<lambda>m. risk_level m \<notin> {''Healthy'', ''Warning'', ''High Risk''}) data) = 0
        \<longleftrightarrow> (\<forall>m \<in> set data. risk_level m \<in> {''Healthy'', ''Warning'', ''High Risk''})"
    by (simp add: filter_empty_conv)
  then show ?thesis
    using snapshot_counts [of data] unfolding snapshotKpis_def by (simp del: length_0_conv) linarith
qed

theorem snapshotKpis_buckets_witness:
  "healthy (snapshotKpis good_snapshot) + warning (snapshotKpis good_snapshot)
     + highRisk (snapshotKpis good_snapshot) = total_k (snapshotKpis good_snapshot) \<and>
   total_k (snapshotKpis good_snapshot) = 3 \<and>
   \<not> (\<forall>m \<in> set odd_snapshot. risk_level m \<in> {''Healthy'', ''Warning'', ''High Risk''}) \<and>
   healthy (snapshotKpis odd_snapshot) + warning (snapshotKpis odd_snapshot)
     + highRisk (snapshotKpis odd_snapshot) < total_k (snapshotKpis odd_snapshot)"
  using snapshotKpis_buckets [of good_snapshot] snapshotKpis_buckets [of odd_snapshot]
  by (simp add: good_snapshot_def odd_snapshot_def snapshotKpis_def)

end
